theory Spec2Isabelle
  imports Main "HOL-Library.FSet" "HOL-Library.Word"
begin

section \<open>Shared data model\<close>

text \<open>
  Socket.IO for Go (\<^verbatim>\<open>tomruk/socket.io-go\<close>). Identifiers are Go strings, that
  is byte sequences, modelled as \<open>string\<close>. A \<^verbatim>\<open>time.Time\<close> is an instant counted
  in nanoseconds and a \<^verbatim>\<open>time.Duration\<close> a number of nanoseconds; both are \<open>int\<close>
  here, \<^verbatim>\<open>t.Add(d)\<close> is \<open>t + d\<close>, \<^verbatim>\<open>a.After(b)\<close> is \<open>b < a\<close> and
  \<^verbatim>\<open>a.Before(b)\<close> is \<open>a < b\<close>. The reading of the clock, \<^verbatim>\<open>time.Now()\<close>, is an
  argument \<open>now\<close> of every function that reads it.
\<close>

type_synonym SocketID = string
type_synonym PrivateSessionID = string
type_synonym Room = string
type_synonym Time = int
type_synonym Duration = int

text \<open>\<^verbatim>\<open>parser.PacketType\<close> and \<^verbatim>\<open>parser.PacketHeader\<close>; the header's \<^verbatim>\<open>ID\<close> is a
  \<^verbatim>\<open>*uint64\<close>, \<open>None\<close> when nil.\<close>

datatype PacketType =
  PacketTypeConnect | PacketTypeDisconnect | PacketTypeEvent | PacketTypeAck
  | PacketTypeConnectError | PacketTypeBinaryEvent | PacketTypeBinaryAck

record PacketHeader =
  hdr_Type :: PacketType
  hdr_Namespace :: string
  hdr_ID :: "64 word option"

text \<open>A Go \<^verbatim>\<open>interface{}\<close> value of a payload: nil, a string, a number, or a function
  (named by a handle).\<close>

datatype any = AnyNil | AnyString string | AnyNumber int | AnyFunc nat

text \<open>\<^verbatim>\<open>BroadcastOptions\<close>: the two room sets that the session-aware adapter reads
  (\<^verbatim>\<open>mapset.Set[Room]\<close>, finite sets).\<close>

record BroadcastOptions =
  bo_Rooms :: "Room fset"
  bo_Except :: "Room fset"

section \<open>Persisted packets and sessions\<close>

text \<open>\<^verbatim>\<open>PersistedPacket\<close> (five fields; \<^verbatim>\<open>Header\<close> is a pointer, \<open>None\<close> when nil),
  \<^verbatim>\<open>SessionToPersist\<close> and \<^verbatim>\<open>sessionWithTimestamp\<close>.\<close>

record PersistedPacket =
  pp_ID :: string
  pp_EmittedAt :: Time
  pp_Opts :: BroadcastOptions
  pp_Header :: "PacketHeader option"
  pp_Data :: "any list"

record SessionToPersist =
  sp_SID :: SocketID
  sp_PID :: PrivateSessionID
  sp_Rooms :: "Room list"
  sp_MissedPackets :: "PersistedPacket list"

record sessionWithTimestamp =
  st_SessionToPersist :: SessionToPersist
  st_DisconnectedAt :: Time

text \<open>\<^verbatim>\<open>return time.Now().Before(p.EmittedAt.Add(maxDisconnectDuration))\<close>\<close>

definition HasExpired :: "Time \<Rightarrow> PersistedPacket \<Rightarrow> Duration \<Rightarrow> bool" where
  "HasExpired now p maxDisconnectDuration \<longleftrightarrow> now < pp_EmittedAt p + maxDisconnectDuration"

text \<open>\<^verbatim>\<open>return time.Now().After(s.DisconnectedAt.Add(maxDisconnectDuration))\<close>\<close>

definition hasExpired :: "Time \<Rightarrow> sessionWithTimestamp \<Rightarrow> Duration \<Rightarrow> bool" where
  "hasExpired now s maxDisconnectDuration \<longleftrightarrow> st_DisconnectedAt s + maxDisconnectDuration < now"

section \<open>The session-aware adapter\<close>

text \<open>
  The state of a \<^verbatim>\<open>sessionAwareAdapter\<close>. The embedded in-memory adapter is seen only
  through the calls of its \<^verbatim>\<open>Broadcast\<close>, which are logged in \<open>inner_broadcasts\<close>
  (oldest first). The yeast generator is outside the repository: the ID it returns is an
  argument of \<open>Broadcast\<close>.
\<close>

record sessionAwareAdapter =
  maxDisconnectDuration :: Duration
  sessions :: "PrivateSessionID \<rightharpoonup> sessionWithTimestamp"
  packets :: "PersistedPacket list"
  inner_broadcasts :: "(PacketHeader \<times> any list \<times> BroadcastOptions) list"

text \<open>
  One pass of \<^verbatim>\<open>cleaner\<close>, after the sleep. The first loop deletes every session
  for which \<open>hasExpired\<close> holds. The second loop runs \<^verbatim>\<open>i\<close> from
  \<^verbatim>\<open>len(a.packets) - 1\<close> down to \<^verbatim>\<open>0\<close>; at the first \<^verbatim>\<open>i\<close> whose packet
  satisfies \<open>HasExpired\<close> it removes that one element and breaks.
  \<open>cleaner_packets now d ps n\<close> is the loop with \<^verbatim>\<open>i = n - 1\<close>.
\<close>

definition cleaner_sessions ::
  "Time \<Rightarrow> Duration \<Rightarrow> (PrivateSessionID \<rightharpoonup> sessionWithTimestamp) \<Rightarrow> (PrivateSessionID \<rightharpoonup> sessionWithTimestamp)" where
  "cleaner_sessions now d m =
     (\<lambda>sessionID. case m sessionID of
        None \<Rightarrow> None
      | Some session \<Rightarrow> if hasExpired now session d then None else Some session)"

fun cleaner_packets :: "Time \<Rightarrow> Duration \<Rightarrow> PersistedPacket list \<Rightarrow> nat \<Rightarrow> PersistedPacket list" where
  "cleaner_packets now d ps 0 = ps"
| "cleaner_packets now d ps (Suc i) =
     (if HasExpired now (ps ! i) d then take i ps @ drop (Suc i) ps
      else cleaner_packets now d ps i)"

definition cleaner_pass :: "Time \<Rightarrow> sessionAwareAdapter \<Rightarrow> sessionAwareAdapter" where
  "cleaner_pass now a =
     a\<lparr>sessions := cleaner_sessions now (maxDisconnectDuration a) (sessions a),
       packets := cleaner_packets now (maxDisconnectDuration a) (packets a) (length (packets a))\<rparr>"

text \<open>\<^verbatim>\<open>PersistSession\<close>: the session is stored under its PID with the time of the call.\<close>

definition PersistSession :: "Time \<Rightarrow> SessionToPersist \<Rightarrow> sessionAwareAdapter \<Rightarrow> sessionAwareAdapter" where
  "PersistSession now session a =
     a\<lparr>sessions := (sessions a)(sp_PID session \<mapsto>
          \<lparr>st_SessionToPersist = session, st_DisconnectedAt = now\<rparr>)\<rparr>"

text \<open>
  \<^verbatim>\<open>shouldIncludePacket\<close>: two loops over the session's rooms, each leaving at the
  first hit, and \<^verbatim>\<open>opts.Rooms.Cardinality() == 0 || included\<close> between them.
\<close>

definition shouldIncludePacket :: "Room list \<Rightarrow> BroadcastOptions \<Rightarrow> bool" where
  "shouldIncludePacket sessionRooms opts =
     (let included = list_ex (\<lambda>sessionRoom. sessionRoom |\<in>| bo_Rooms opts) sessionRooms;
          included = (fcard (bo_Rooms opts) = 0 \<or> included);
          notExcluded = (\<not> list_ex (\<lambda>sessionRoom. sessionRoom |\<in>| bo_Except opts) sessionRooms)
      in included \<and> notExcluded)"

text \<open>The search for the offset: the first index whose packet has that ID; \<open>None\<close>
  is the source's \<^verbatim>\<open>index == -1\<close>.\<close>

fun offsetIndex :: "string \<Rightarrow> PersistedPacket list \<Rightarrow> nat option" where
  "offsetIndex offset [] = None"
| "offsetIndex offset (packet # ps) =
     (if pp_ID packet = offset then Some 0 else map_option Suc (offsetIndex offset ps))"

text \<open>The loop that collects the missed packets, over the packets from
  \<^verbatim>\<open>index + 1\<close> on.\<close>

fun missedPackets :: "Room list \<Rightarrow> PersistedPacket list \<Rightarrow> PersistedPacket list" where
  "missedPackets rooms [] = []"
| "missedPackets rooms (packet # ps) =
     (if shouldIncludePacket rooms (pp_Opts packet) then packet # missedPackets rooms ps
      else missedPackets rooms ps)"

text \<open>
  \<^verbatim>\<open>RestoreSession\<close> returns \<^verbatim>\<open>(session, ok)\<close>; the result here is \<open>Some session\<close>
  when \<^verbatim>\<open>ok\<close>, and \<open>None\<close> for \<^verbatim>\<open>(nil, false)\<close>. The returned pointer is the
  address of the stored session, so the assignment to \<^verbatim>\<open>session.MissedPackets\<close>
  writes the stored session as well.
\<close>

definition RestoreSession ::
  "Time \<Rightarrow> PrivateSessionID \<Rightarrow> string \<Rightarrow> sessionAwareAdapter \<Rightarrow> SessionToPersist option \<times> sessionAwareAdapter" where
  "RestoreSession now pid offset a =
     (case sessions a pid of
        None \<Rightarrow> (None, a)
      | Some sessionWithTS \<Rightarrow>
          if hasExpired now sessionWithTS (maxDisconnectDuration a)
          then (None, a\<lparr>sessions := (sessions a)(pid := None)\<rparr>)
          else
            (case offsetIndex offset (packets a) of
               None \<Rightarrow> (None, a)
             | Some index \<Rightarrow>
                 let missed = missedPackets (sp_Rooms (st_SessionToPersist sessionWithTS))
                                (drop (index + 1) (packets a));
                     session = (st_SessionToPersist sessionWithTS)\<lparr>sp_MissedPackets := missed\<rparr>
                 in (Some session,
                     a\<lparr>sessions := (sessions a)(pid \<mapsto> sessionWithTS\<lparr>st_SessionToPersist := session\<rparr>)\<rparr>)))"

text \<open>
  \<^verbatim>\<open>Broadcast\<close>. \<open>yeast\<close> is what \<^verbatim>\<open>a.yeaster.Yeast()\<close> returns. The composite literal
  sets \<^verbatim>\<open>ID\<close>, \<^verbatim>\<open>Opts\<close>, \<^verbatim>\<open>EmittedAt\<close> and \<^verbatim>\<open>Data\<close>; \<^verbatim>\<open>Header\<close> keeps its zero
  value, nil.
\<close>

definition Broadcast ::
  "Time \<Rightarrow> string \<Rightarrow> PacketHeader \<Rightarrow> any list \<Rightarrow> BroadcastOptions \<Rightarrow> sessionAwareAdapter \<Rightarrow> sessionAwareAdapter" where
  "Broadcast now yeast header v opts a =
     (let isEventPacket = (hdr_Type header = PacketTypeEvent);
          withoutAcknowledgement = (hdr_ID header = None)
      in if isEventPacket \<and> withoutAcknowledgement
         then
           (let v' = v @ [AnyString yeast];
                packet = \<lparr>pp_ID = yeast, pp_EmittedAt = now, pp_Opts = opts,
                          pp_Header = None, pp_Data = v'\<rparr>
            in a\<lparr>packets := packets a @ [packet],
                 inner_broadcasts := inner_broadcasts a @ [(header, v', opts)]\<rparr>)
         else a\<lparr>inner_broadcasts := inner_broadcasts a @ [(header, v, opts)]\<rparr>)"

section \<open>Namespaces and the Socket.IO server\<close>

text \<open>
  A \<^verbatim>\<open>Namespace\<close> is seen through its name. The \<^verbatim>\<open>Server\<close> holds the namespace
  store and the \<^verbatim>\<open>acceptAnyNamespace\<close> option copied from the configuration.
\<close>

record Namespace =
  nsp_name :: string

record Server =
  namespaces :: "string \<rightharpoonup> Namespace"
  acceptAnyNamespace :: bool

text \<open>
  Modelled from the spec: \<^verbatim>\<open>namespaceStore.GetOrCreate\<close> is not among the sources.
  The spec has a namespace "created lazily on first reference", and the store's test
  has \<^verbatim>\<open>getOrCreate\<close> return the stored namespace when the name is known and create
  one of that name otherwise.
\<close>

definition GetOrCreate :: "string \<Rightarrow> Server \<Rightarrow> Namespace \<times> Server" where
  "GetOrCreate name s =
     (case namespaces s name of
        Some n \<Rightarrow> (n, s)
      | None \<Rightarrow>
          (let n = \<lparr>nsp_name = name\<rparr>
           in (n, s\<lparr>namespaces := (namespaces s)(name \<mapsto> n)\<rparr>)))"

text \<open>\<^verbatim>\<open>Server.Of\<close>: a non-empty name whose first byte is not a slash gets one in
  front.\<close>

definition Of :: "string \<Rightarrow> Server \<Rightarrow> Namespace \<times> Server" where
  "Of namespace s =
     (let namespace =
            (if length namespace \<noteq> 0 \<and> namespace ! 0 \<noteq> CHR ''/''
             then ''/'' @ namespace else namespace)
      in GetOrCreate namespace s)"

section \<open>Server sockets and acknowledgements\<close>

text \<open>
  \<^verbatim>\<open>serverSocket\<close>: its ID, the name of its namespace, the ack table and the ack
  counter. A Go map is a reference that is nil until it is made: \<open>ss_acks\<close> is
  \<open>None\<close> for the nil map. Reading a nil map finds nothing, deleting from it does
  nothing, assigning to an entry of it panics. An \<^verbatim>\<open>ackHandler\<close> wraps the function
  it was made from and is named by that function's handle.
\<close>

type_synonym ackHandler = nat

record serverSocket =
  ss_id :: string
  ss_nsp :: string
  ss_acks :: "(64 word \<rightharpoonup> ackHandler) option"
  ss_ackID :: "64 word"

text \<open>\<^verbatim>\<open>newServerSocket\<close>, given the result of \<^verbatim>\<open>eio.GenerateBase64ID\<close> (\<open>None\<close>
  for its error). The composite literal sets \<^verbatim>\<open>id\<close>, \<^verbatim>\<open>server\<close>, \<^verbatim>\<open>conn\<close>,
  \<^verbatim>\<open>nsp\<close>, \<^verbatim>\<open>parser\<close> and \<^verbatim>\<open>emitter\<close>; \<^verbatim>\<open>acks\<close> and \<^verbatim>\<open>ackID\<close> keep their
  zero values.\<close>

definition newServerSocket :: "string option \<Rightarrow> Namespace \<Rightarrow> serverSocket option" where
  "newServerSocket generated nsp =
     (case generated of
        None \<Rightarrow> None
      | Some sid \<Rightarrow> Some \<lparr>ss_id = sid, ss_nsp = nsp_name nsp, ss_acks = None, ss_ackID = 0\<rparr>)"

text \<open>
  Modelled from the spec: \<^verbatim>\<open>IsEventReservedForServer\<close> is not among the sources.
  The spec lists the reserved event names of the server side.
\<close>

definition IsEventReservedForServer :: "string \<Rightarrow> bool" where
  "IsEventReservedForServer eventName \<longleftrightarrow>
     eventName \<in> set [''connect'', ''connect_error'', ''disconnect'', ''disconnecting'',
                       ''newListener'', ''removeListener'']"

datatype panic =
  ReservedEvent           \<comment> \<open>the explicit panic of \<^verbatim>\<open>sendDataPacket\<close>\<close>
  | NilPointerDereference \<comment> \<open>\<^verbatim>\<open>rt.Kind()\<close> on the nil type of a nil value\<close>
  | AssignmentToNilMap    \<comment> \<open>\<^verbatim>\<open>s.acks[id] = ackHandler\<close> on a nil map\<close>
  | DecodeFailed          \<comment> \<open>\<^verbatim>\<open>panic(err)\<close> of \<^verbatim>\<open>serverConn.connect\<close>\<close>

text \<open>
  \<^verbatim>\<open>sendDataPacket\<close>. The result is the panic, or the socket after the call with the
  header and the values handed to \<^verbatim>\<open>s.parser.Encode\<close>. The ack counter is a
  \<^verbatim>\<open>uint64\<close>: \<^verbatim>\<open>s.ackID++\<close> wraps.
\<close>

definition sendDataPacket ::
  "PacketType \<Rightarrow> string \<Rightarrow> any list \<Rightarrow> serverSocket \<Rightarrow> panic + (serverSocket \<times> PacketHeader \<times> any list)" where
  "sendDataPacket typ eventName v s =
     (let header = \<lparr>hdr_Type = typ, hdr_Namespace = ss_nsp s, hdr_ID = None\<rparr>
      in if IsEventReservedForServer eventName then Inl ReservedEvent
         else
           (let v = AnyString eventName # v
            in if length v > 0
               then
                 (case last v of
                    AnyNil \<Rightarrow> Inl NilPointerDereference
                  | AnyFunc f \<Rightarrow>
                      (case ss_acks s of
                         None \<Rightarrow> Inl AssignmentToNilMap
                       | Some acks \<Rightarrow>
                           (let ackid = ss_ackID s
                            in Inr (s\<lparr>ss_acks := Some (acks(ackid \<mapsto> f)), ss_ackID := ss_ackID s + 1\<rparr>,
                                    header\<lparr>hdr_ID := Some ackid\<rparr>,
                                    butlast v)))
                  | _ \<Rightarrow> Inr (s, header, v))
               else Inr (s, header, v)))"

section \<open>The connection of a client to a namespace\<close>

text \<open>
  \<^verbatim>\<open>serverConn\<close>: the sockets of the connection by ID, the names of its namespaces,
  and the packets it sent: a CONNECT reply carrying the socket's ID, or a CONNECT_ERROR
  carrying the message, each with the namespace it is sent on.
\<close>

datatype sentPacket = ConnectReply string string | ConnectErrorReply string string

record serverConn =
  conn_sockets :: "string \<rightharpoonup> serverSocket"
  conn_nsps :: "string set"
  conn_sent :: "sentPacket list"

text \<open>
  \<^verbatim>\<open>serverConn.connect\<close>. \<open>decoded\<close> is whether \<^verbatim>\<open>decode(at)\<close> returned without error.
  \<^verbatim>\<open>Namespace.add\<close> (the middleware chain and the creation of the socket) is not among
  the sources: its result is the argument \<open>add\<close>, the error or the socket. The server's
  \<^verbatim>\<open>acceptAnyNamespace\<close> is not read.
\<close>

definition connect ::
  "bool \<Rightarrow> (Namespace \<Rightarrow> string + serverSocket) \<Rightarrow> PacketHeader \<Rightarrow> serverConn \<times> Server
     \<Rightarrow> panic + (serverConn \<times> Server)" where
  "connect decoded add header cs =
     (let (c, server) = cs
      in if \<not> decoded then Inl DecodeFailed
         else
           (let (nsp, server) = Of (hdr_Namespace header) server
            in case add nsp of
                 Inl err \<Rightarrow>
                   Inr (c\<lparr>conn_sent := conn_sent c @ [ConnectErrorReply (nsp_name nsp) err]\<rparr>, server)
               | Inr socket \<Rightarrow>
                   Inr (c\<lparr>conn_sockets := (conn_sockets c)(ss_id socket \<mapsto> socket),
                          conn_nsps := insert (nsp_name nsp) (conn_nsps c),
                          conn_sent := conn_sent c @ [ConnectReply (ss_nsp socket) (ss_id socket)]\<rparr>,
                        server)))"

section \<open>The Engine.IO server: requests\<close>

text \<open>
  \<^verbatim>\<open>strconv.Atoi\<close> of Go's standard library, for a 64-bit \<^verbatim>\<open>int\<close>: an optional
  sign, then one or more decimal digits, and a value that fits the type; anything else
  is an error, \<open>None\<close>. \<open>digits\<close> is its loop \<^verbatim>\<open>n = n*10 + int(ch)\<close>.
\<close>

fun digits :: "string \<Rightarrow> int \<Rightarrow> int option" where
  "digits [] n = Some n"
| "digits (ch # s) n =
     (let c = (of_char ch :: nat)
      in if c < 48 \<or> 57 < c then None else digits s (n * 10 + int (c - 48)))"

definition Atoi :: "string \<Rightarrow> int option" where
  "Atoi s0 =
     (if s0 = [] then None
      else
        (let neg = (hd s0 = CHR ''-'');
             s = (if hd s0 = CHR ''-'' \<or> hd s0 = CHR ''+'' then tl s0 else s0)
         in if s = [] then None
            else
              (case digits s 0 of
                 None \<Rightarrow> None
               | Some n \<Rightarrow>
                   (let v = (if neg then - n else n)
                    in if v < - (2 ^ 63) \<or> 2 ^ 63 - 1 < v then None else Some v))))"

text \<open>\<^verbatim>\<open>url.Values.Get\<close>: the first value of the key, or the empty string. The query
  is the list of its key-value pairs in order.\<close>

type_synonym Values = "(string \<times> string) list"

definition Get :: "string \<Rightarrow> Values \<Rightarrow> string" where
  "Get key q = (case map_of q key of None \<Rightarrow> [] | Some v \<Rightarrow> v)"

record Request =
  req_Method :: string
  req_Query :: Values

text \<open>An Engine.IO socket of the store is seen through the name of its transport;
  the server through its \<^verbatim>\<open>closed\<close> channel (closed or not) and its store.\<close>

record eioSocket =
  es_transport :: string

record eioServer =
  eio_closed :: bool
  eio_store :: "string \<rightharpoonup> eioSocket"

text \<open>
  Modelled from the spec: \<^verbatim>\<open>ProtocolVersion\<close>, the error codes, the table
  \<^verbatim>\<open>serverErrors\<close> and \<^verbatim>\<open>writeServerError\<close> are not among the sources. The spec has
  \<^verbatim>\<open>EIO\<close> "must equal 4" and the error responses "HTTP 400 with JSON body
  {code,message}", with the table of codes 0 to 5.
\<close>

definition ProtocolVersion :: int where
  "ProtocolVersion = 4"

record ServerError =
  se_Code :: nat
  se_Message :: string

definition ErrorUnknownTransport :: nat where "ErrorUnknownTransport = 0"
definition ErrorUnknownSID :: nat where "ErrorUnknownSID = 1"
definition ErrorBadHandshakeMethod :: nat where "ErrorBadHandshakeMethod = 2"
definition ErrorBadRequest :: nat where "ErrorBadRequest = 3"
definition ErrorForbidden :: nat where "ErrorForbidden = 4"
definition ErrorUnsupportedProtocolVersion :: nat where "ErrorUnsupportedProtocolVersion = 5"

definition serverErrors :: "nat \<Rightarrow> ServerError" where
  "serverErrors code =
     \<lparr>se_Code = code,
      se_Message =
        (if code = 0 then ''Transport unknown''
         else if code = 1 then ''Session unknown''
         else if code = 2 then ''Bad handshake method''
         else if code = 3 then ''Bad request''
         else if code = 4 then ''Forbidden''
         else ''Unsupported protocol version'')\<rparr>"

text \<open>
  What serving a request does, in order: a response (its status and, for an error
  response, its JSON body), a handshake, a look-up of a session ID in the store, an
  upgrade attempt, or the hand-over to the socket's transport.
\<close>

datatype httpAction =
  Respond nat "ServerError option"
  | HandleHandshake
  | StoreGet string
  | MaybeUpgrade string string
  | TransportServeHTTP string

definition StatusBadRequest :: nat where "StatusBadRequest = 400"
definition StatusTeapot :: nat where "StatusTeapot = 418"

definition writeServerError :: "nat \<Rightarrow> httpAction list" where
  "writeServerError code = [Respond StatusBadRequest (Some (serverErrors code))]"

text \<open>\<^verbatim>\<open>Server.ServeHTTP\<close> of the Engine.IO server.\<close>

definition ServeHTTP :: "eioServer \<Rightarrow> Request \<Rightarrow> httpAction list" where
  "ServeHTTP s r =
     (if eio_closed s then [Respond StatusTeapot None]
      else
        (let q = req_Query r
         in case Atoi (Get ''EIO'' q) of
              None \<Rightarrow> writeServerError ErrorUnsupportedProtocolVersion
            | Some version \<Rightarrow>
                if version \<noteq> ProtocolVersion then writeServerError ErrorUnsupportedProtocolVersion
                else
                  (let sid = Get ''sid'' q
                   in if sid = [] then [HandleHandshake]
                      else
                        StoreGet sid #
                        (case eio_store s sid of
                           None \<Rightarrow> writeServerError ErrorUnknownSID
                         | Some socket \<Rightarrow>
                             (let n = Get ''transport'' q
                              in if es_transport socket \<noteq> n then [MaybeUpgrade sid n]
                                 else [TransportServeHTTP sid])))))"

section \<open>The Engine.IO server: transport upgrade\<close>

text \<open>
  Modelled from the spec: the Engine.IO packet parser (\<^verbatim>\<open>parser.NewPacket\<close>) is not
  among the sources. The spec has a packet as its kind, its \<^verbatim>\<open>isBinary\<close> flag and its
  payload; the error return of \<^verbatim>\<open>NewPacket\<close> is not described, and the model builds
  the packet.
\<close>

datatype eioPacketType =
  PacketTypeOpen | PacketTypeClose | PacketTypePing | PacketTypePong
  | PacketTypeMessage | PacketTypeUpgrade | PacketTypeNoop

record Packet =
  pkt_Type :: eioPacketType
  pkt_IsBinary :: bool
  pkt_Data :: string

definition NewPacket :: "eioPacketType \<Rightarrow> bool \<Rightarrow> string \<Rightarrow> Packet option" where
  "NewPacket packetType isBinary dat =
     Some \<lparr>pkt_Type = packetType, pkt_IsBinary = isBinary, pkt_Data = dat\<rparr>"

text \<open>
  The state of one upgrade attempt of \<^verbatim>\<open>maybeUpgrade\<close>, after the handshake of the new
  WebSocket transport \<^verbatim>\<open>t\<close>: the channel \<^verbatim>\<open>done\<close> (closed or not), the
  \<^verbatim>\<open>sync.Once\<close> (run or not), whether the goroutine of the timeout still waits in its
  \<^verbatim>\<open>select\<close>, the transport the socket is on, and what was sent on and done to the
  two transports.
\<close>

datatype transportRef = OldTransport | NewTransport

record upgrade =
  up_done :: bool
  up_once :: bool
  up_waiting :: bool
  up_active :: transportRef
  up_new_sent :: "Packet list"
  up_new_closed :: bool
  up_old_sent :: "Packet list"
  up_old_closed :: bool
  up_errors :: nat

text \<open>\<^verbatim>\<open>t.Send\<close> and \<^verbatim>\<open>t.Close\<close> of the new transport.\<close>

definition t_Send :: "Packet \<Rightarrow> upgrade \<Rightarrow> upgrade" where
  "t_Send p u = u\<lparr>up_new_sent := up_new_sent u @ [p]\<rparr>"

definition t_Close :: "upgrade \<Rightarrow> upgrade" where
  "t_Close u = u\<lparr>up_new_closed := True\<rparr>"

text \<open>
  Modelled from the spec: the Engine.IO \<^verbatim>\<open>serverSocket\<close> (\<^verbatim>\<open>Send\<close>, \<^verbatim>\<open>upgradeTo\<close>,
  \<^verbatim>\<open>onError\<close>) is not among the sources. The spec has a connection own one transport
  and send on it, and on UPGRADE "the old transport is closed and the connection swaps its
  active transport".
\<close>

definition socket_Send :: "Packet \<Rightarrow> upgrade \<Rightarrow> upgrade" where
  "socket_Send p u =
     (case up_active u of
        OldTransport \<Rightarrow> u\<lparr>up_old_sent := up_old_sent u @ [p]\<rparr>
      | NewTransport \<Rightarrow> u\<lparr>up_new_sent := up_new_sent u @ [p]\<rparr>)"

definition socket_upgradeTo :: "upgrade \<Rightarrow> upgrade" where
  "socket_upgradeTo u = u\<lparr>up_old_closed := True, up_active := NewTransport\<rparr>"

definition onError :: "upgrade \<Rightarrow> upgrade" where
  "onError u = u\<lparr>up_errors := up_errors u + 1\<rparr>"

text \<open>\<^verbatim>\<open>once.Do(func() { close(done) })\<close>\<close>

definition once_Do_close_done :: "upgrade \<Rightarrow> upgrade" where
  "once_Do_close_done u = (if up_once u then u else u\<lparr>up_once := True, up_done := True\<rparr>)"

text \<open>
  The closure \<^verbatim>\<open>onPacket\<close> of \<^verbatim>\<open>maybeUpgrade\<close>, called for each packet received on the
  new transport. The send of the NOOP, started with \<^verbatim>\<open>go\<close>, is taken at the place it
  is started.
\<close>

definition onPacket :: "Packet \<Rightarrow> upgrade \<Rightarrow> upgrade" where
  "onPacket packet u =
     (case pkt_Type packet of
        PacketTypePing \<Rightarrow>
          (case NewPacket PacketTypePong False ''probe'' of
             None \<Rightarrow> u
           | Some pong \<Rightarrow>
               (let u = t_Send pong u
                in case NewPacket PacketTypeNoop False [] of
                     None \<Rightarrow> u
                   | Some noop \<Rightarrow> socket_Send noop u))
      | PacketTypeUpgrade \<Rightarrow> socket_upgradeTo (once_Do_close_done u)
      | _ \<Rightarrow> onError (t_Close u))"

text \<open>
  What happens to an upgrade attempt: a packet arrives on the new transport, or the
  goroutine started by \<^verbatim>\<open>maybeUpgrade\<close> leaves its \<^verbatim>\<open>select\<close>, by the case of
  \<^verbatim>\<open>done\<close> (possible once the channel is closed) or by the case of
  \<^verbatim>\<open>time.After(s.upgradeTimeout)\<close>, which closes the new transport and reports the error.
\<close>

datatype upgradeEvent = Received Packet | DoneSeen | TimeoutElapsed

definition upgradeStep :: "upgrade \<Rightarrow> upgradeEvent \<Rightarrow> upgrade" where
  "upgradeStep u e =
     (case e of
        Received packet \<Rightarrow> onPacket packet u
      | DoneSeen \<Rightarrow> (if up_waiting u \<and> up_done u then u\<lparr>up_waiting := False\<rparr> else u)
      | TimeoutElapsed \<Rightarrow>
          (if up_waiting u then onError (t_Close (u\<lparr>up_waiting := False\<rparr>)) else u))"

definition upgradeRun :: "upgrade \<Rightarrow> upgradeEvent list \<Rightarrow> upgrade" where
  "upgradeRun u es = foldl upgradeStep u es"

text \<open>The attempt as \<^verbatim>\<open>maybeUpgrade\<close> starts it, on a socket that is on its old
  transport.\<close>

definition upgradeStart :: upgrade where
  "upgradeStart =
     \<lparr>up_done = False, up_once = False, up_waiting = True, up_active = OldTransport,
      up_new_sent = [], up_new_closed = False, up_old_sent = [], up_old_closed = False,
      up_errors = 0\<rparr>"

text \<open>
  \<^verbatim>\<open>maybeUpgrade\<close> itself: a target other than \<open>websocket\<close> is answered with the error
  for a bad request; a failed handshake of the new transport ends the call; otherwise the
  goroutine of the timeout is started and \<open>onPacket\<close> is installed. \<open>handshake\<close> is
  whether \<^verbatim>\<open>t.Handshake\<close> returned without error.
\<close>

definition maybeUpgrade :: "string \<Rightarrow> bool \<Rightarrow> httpAction list + upgrade" where
  "maybeUpgrade upgradeTo handshake =
     (if upgradeTo \<noteq> ''websocket'' then Inl (writeServerError ErrorBadRequest)
      else if \<not> handshake then Inl []
      else Inr upgradeStart)"

section \<open>Concrete states\<close>

text \<open>
  An adapter with a disconnect window of 5: a session \<open>p0\<close> that left at time 10 and a
  session \<open>p1\<close> that left at time 28, both in the rooms \<open>r1\<close> and \<open>r2\<close>, and five
  buffered packets emitted at the times 10, 20, 25, 29 and 30.
\<close>

definition ex_opts :: BroadcastOptions where
  "ex_opts = \<lparr>bo_Rooms = {||}, bo_Except = {||}\<rparr>"

definition ex_packet :: "string \<Rightarrow> Time \<Rightarrow> BroadcastOptions \<Rightarrow> PersistedPacket" where
  "ex_packet i t opts =
     \<lparr>pp_ID = i, pp_EmittedAt = t, pp_Opts = opts, pp_Header = None,
      pp_Data = [AnyString ''m'', AnyString i]\<rparr>"

definition ex_session :: "string \<Rightarrow> string \<Rightarrow> Time \<Rightarrow> sessionWithTimestamp" where
  "ex_session sid pid t =
     \<lparr>st_SessionToPersist =
        \<lparr>sp_SID = sid, sp_PID = pid, sp_Rooms = [''r1'', ''r2''], sp_MissedPackets = []\<rparr>,
      st_DisconnectedAt = t\<rparr>"

definition ex_adapter :: sessionAwareAdapter where
  "ex_adapter =
     \<lparr>maxDisconnectDuration = 5,
      sessions = [''p0'' \<mapsto> ex_session ''s0'' ''p0'' 10, ''p1'' \<mapsto> ex_session ''s1'' ''p1'' 28],
      packets =
        [ex_packet ''a'' 10 ex_opts,
         ex_packet ''b'' 20 (ex_opts\<lparr>bo_Rooms := {|''r1''|}\<rparr>),
         ex_packet ''c'' 25 (ex_opts\<lparr>bo_Except := {|''r2''|}\<rparr>),
         ex_packet ''d'' 29 (ex_opts\<lparr>bo_Rooms := {|''r9''|}\<rparr>),
         ex_packet ''e'' 30 (ex_opts\<lparr>bo_Except := {|''r3''|}\<rparr>)],
      inner_broadcasts = []\<rparr>"

definition ex_header :: PacketHeader where
  "ex_header = \<lparr>hdr_Type = PacketTypeEvent, hdr_Namespace = ''/'', hdr_ID = None\<rparr>"

text \<open>A server that has the main namespace only and does not accept any namespace, a
  connection with no socket yet, and an open Engine.IO server with one polling session.\<close>

definition ex_server :: Server where
  "ex_server = \<lparr>namespaces = [''/'' \<mapsto> \<lparr>nsp_name = ''/''\<rparr>], acceptAnyNamespace = False\<rparr>"

definition ex_conn :: serverConn where
  "ex_conn = \<lparr>conn_sockets = Map.empty, conn_nsps = {}, conn_sent = []\<rparr>"

text \<open>A \<^verbatim>\<open>Namespace.add\<close> that accepts: the socket that \<open>newServerSocket\<close> makes with
  the generated ID \<open>sid1\<close>.\<close>

definition ex_add :: "Namespace \<Rightarrow> string + serverSocket" where
  "ex_add nsp =
     (case newServerSocket (Some ''sid1'') nsp of
        None \<Rightarrow> Inl ''GenerateBase64ID failed''
      | Some socket \<Rightarrow> Inr socket)"

definition ex_eio :: eioServer where
  "ex_eio = \<lparr>eio_closed = False, eio_store = [''abc'' \<mapsto> \<lparr>es_transport = ''polling''\<rparr>]\<rparr>"

definition ex_request :: "string \<Rightarrow> Request" where
  "ex_request version =
     \<lparr>req_Method = ''GET'',
      req_Query = [(''EIO'', version), (''transport'', ''polling''), (''sid'', ''abc'')]\<rparr>"

definition ex_ping :: Packet where
  "ex_ping = \<lparr>pkt_Type = PacketTypePing, pkt_IsBinary = False, pkt_Data = ''probe''\<rparr>"

definition ex_upgrade :: Packet where
  "ex_upgrade = \<lparr>pkt_Type = PacketTypeUpgrade, pkt_IsBinary = False, pkt_Data = []\<rparr>"

section \<open>Predicates on upgrade attempts\<close>

text \<open>An event that is not the arrival of an UPGRADE packet, and the attempts that are
  still open: the socket is on its old transport, \<^verbatim>\<open>done\<close> is not closed, and the
  goroutine of the timeout still waits or has closed the new transport.\<close>

definition notUpgrade :: "upgradeEvent \<Rightarrow> bool" where
  "notUpgrade e = (case e of Received q \<Rightarrow> pkt_Type q \<noteq> PacketTypeUpgrade | _ \<Rightarrow> True)"

definition pending :: "upgrade \<Rightarrow> bool" where
  "pending u \<longleftrightarrow> up_active u = OldTransport \<and> \<not> up_done u \<and> (up_waiting u \<or> up_new_closed u)"

section \<open>The session-aware adapter: expiry and the sweeper\<close>

lemmas ex_defs = ex_adapter_def ex_packet_def ex_opts_def ex_session_def

text \<open>The sweep of the sessions drops the expired sessions and no other.\<close>

lemma cleaner_sessions_None:
  "cleaner_sessions now d m pid = None \<longleftrightarrow>
     (case m pid of None \<Rightarrow> True | Some s \<Rightarrow> st_DisconnectedAt s + d < now)"
  by (simp add: cleaner_sessions_def hasExpired_def split: option.splits)

lemma cleaner_sessions_Some:
  "cleaner_sessions now d m pid = Some s \<longleftrightarrow> m pid = Some s \<and> \<not> st_DisconnectedAt s + d < now"
  by (auto simp: cleaner_sessions_def hasExpired_def split: option.splits)

text \<open>\<open>HasExpired\<close> is false for every packet that is past its window.\<close>

lemma HasExpired_past_window: "pp_EmittedAt p + d < now \<Longrightarrow> \<not> HasExpired now p d"
  by (simp add: HasExpired_def)

text \<open>The sweep of the packets removes one packet at most.\<close>

lemma cleaner_packets_length:
  "n \<le> length ps \<Longrightarrow> length ps \<le> Suc (length (cleaner_packets now d ps n))"
  by (induction n) auto

text \<open>
  Claim C1. A persisted packet is expired exactly when the current time is after its
  \<^verbatim>\<open>EmittedAt\<close> plus the disconnect window, and each pass of the sweeper removes every
  expired session and every expired packet, and nothing else.

  The code differs, at the adapter \<open>ex_adapter\<close> (window 5) swept at time 32. The packet
  \<open>a\<close>, emitted at 10, is past its window, and \<open>HasExpired\<close> is false for it; the packet
  \<open>e\<close>, emitted at 30, is within its window, and \<open>HasExpired\<close> is true for it. The pass
  removes \<open>e\<close> alone: the expired packets \<open>a\<close>, \<open>b\<close> and \<open>c\<close> stay in the buffer.
\<close>

theorem cleaner_pass_keeps_expired_packets:
  "pp_EmittedAt (ex_packet ''a'' 10 ex_opts) + maxDisconnectDuration ex_adapter < 32 \<and>
   HasExpired 32 (ex_packet ''a'' 10 ex_opts) (maxDisconnectDuration ex_adapter) = False \<and>
   \<not> pp_EmittedAt (ex_packet ''e'' 30 ex_opts) + maxDisconnectDuration ex_adapter < 32 \<and>
   HasExpired 32 (ex_packet ''e'' 30 ex_opts) (maxDisconnectDuration ex_adapter) = True \<and>
   map pp_ID (packets (cleaner_pass 32 ex_adapter)) = [''a'', ''b'', ''c'', ''d'']"
  by (simp add: ex_defs HasExpired_def cleaner_pass_def numeral_eq_Suc)

section \<open>The session-aware adapter: restoring a session\<close>

lemma missedPackets_filter:
  "missedPackets rooms ps = filter (\<lambda>packet. shouldIncludePacket rooms (pp_Opts packet)) ps"
  by (induction ps) simp_all

lemma offsetIndex_first:
  "\<forall>q\<in>set pre. pp_ID q \<noteq> offset \<Longrightarrow> pp_ID p = offset \<Longrightarrow>
   offsetIndex offset (pre @ p # post) = Some (length pre)"
  by (induction pre) simp_all

lemma offsetIndex_None:
  "(offsetIndex offset ps = None) = (\<forall>q\<in>set ps. pp_ID q \<noteq> offset)"
  by (induction ps) auto

lemma shouldIncludePacket_iff:
  "shouldIncludePacket sessionRooms opts \<longleftrightarrow>
     (bo_Rooms opts = {||} \<or> (\<exists>r\<in>set sessionRooms. r |\<in>| bo_Rooms opts)) \<and>
     \<not> (\<exists>r\<in>set sessionRooms. r |\<in>| bo_Except opts)"
  by (auto simp: shouldIncludePacket_def Let_def list_ex_iff)

text \<open>
  Claim C2. \<^verbatim>\<open>RestoreSession(pid, offset)\<close> returns no session when none is stored
  under \<open>pid\<close>, or when the stored session left more than the disconnect window ago.
  Otherwise, when a buffered packet has the ID \<open>offset\<close>, it returns the stored session
  with, as missed packets, the buffered packets after the first such packet, in the order
  of the buffer, whose options' \<^verbatim>\<open>Rooms\<close> is empty or shares a room with the session's
  rooms and whose options' \<^verbatim>\<open>Except\<close> shares none.
\<close>

theorem RestoreSession_missed_packets:
  "(sessions a pid = None \<longrightarrow> fst (RestoreSession now pid offset a) = None) \<and>
   (\<forall>sw. sessions a pid = Some sw \<and> st_DisconnectedAt sw + maxDisconnectDuration a < now
      \<longrightarrow> fst (RestoreSession now pid offset a) = None) \<and>
   (\<forall>sw pre p post.
      sessions a pid = Some sw \<and> \<not> st_DisconnectedAt sw + maxDisconnectDuration a < now \<and>
      packets a = pre @ p # post \<and> pp_ID p = offset \<and> (\<forall>q\<in>set pre. pp_ID q \<noteq> offset)
      \<longrightarrow> fst (RestoreSession now pid offset a) =
            Some ((st_SessionToPersist sw)\<lparr>sp_MissedPackets :=
              filter (\<lambda>q. (bo_Rooms (pp_Opts q) = {||} \<or>
                            (\<exists>r\<in>set (sp_Rooms (st_SessionToPersist sw)). r |\<in>| bo_Rooms (pp_Opts q))) \<and>
                           \<not> (\<exists>r\<in>set (sp_Rooms (st_SessionToPersist sw)). r |\<in>| bo_Except (pp_Opts q)))
                post\<rparr>))"
proof (intro conjI allI impI)
  assume "sessions a pid = None"
  then show "fst (RestoreSession now pid offset a) = None"
    by (simp add: RestoreSession_def)
next
  fix sw
  assume "sessions a pid = Some sw \<and> st_DisconnectedAt sw + maxDisconnectDuration a < now"
  then show "fst (RestoreSession now pid offset a) = None"
    by (simp add: RestoreSession_def hasExpired_def)
next
  fix sw pre p post
  assume h: "sessions a pid = Some sw \<and> \<not> st_DisconnectedAt sw + maxDisconnectDuration a < now \<and>
      packets a = pre @ p # post \<and> pp_ID p = offset \<and> (\<forall>q\<in>set pre. pp_ID q \<noteq> offset)"
  then have idx: "offsetIndex offset (packets a) = Some (length pre)"
    by (simp add: offsetIndex_first)
  from h have dr: "drop (length pre + 1) (packets a) = post"
    by simp
  from h idx dr show "fst (RestoreSession now pid offset a) =
            Some ((st_SessionToPersist sw)\<lparr>sp_MissedPackets :=
              filter (\<lambda>q. (bo_Rooms (pp_Opts q) = {||} \<or>
                            (\<exists>r\<in>set (sp_Rooms (st_SessionToPersist sw)). r |\<in>| bo_Rooms (pp_Opts q))) \<and>
                           \<not> (\<exists>r\<in>set (sp_Rooms (st_SessionToPersist sw)). r |\<in>| bo_Except (pp_Opts q)))
                post\<rparr>)"
    by (simp add: RestoreSession_def hasExpired_def Let_def missedPackets_filter
        shouldIncludePacket_iff del: drop_Suc_Cons)
qed

text \<open>At time 32 and offset \<open>a\<close>: no session \<open>p9\<close>; the session \<open>p0\<close> has expired; the
  session \<open>p1\<close> missed \<open>b\<close> (sent to its room \<open>r1\<close>) and \<open>e\<close>, not \<open>c\<close> (which excepts its
  room \<open>r2\<close>) and not \<open>d\<close> (sent to a room it is not in).\<close>

theorem RestoreSession_missed_packets_witness:
  "fst (RestoreSession 32 ''p9'' ''a'' ex_adapter) = None \<and>
   fst (RestoreSession 32 ''p0'' ''a'' ex_adapter) = None \<and>
   fst (RestoreSession 32 ''p1'' ''a'' ex_adapter) =
     Some \<lparr>sp_SID = ''s1'', sp_PID = ''p1'', sp_Rooms = [''r1'', ''r2''],
           sp_MissedPackets =
             [ex_packet ''b'' 20 (ex_opts\<lparr>bo_Rooms := {|''r1''|}\<rparr>),
              ex_packet ''e'' 30 (ex_opts\<lparr>bo_Except := {|''r3''|}\<rparr>)]\<rparr>"
proof -
  note T = RestoreSession_missed_packets
  have absent: "fst (RestoreSession 32 ''p9'' ''a'' ex_adapter) = None"
    using T [of ex_adapter "''p9''" 32 "''a''"] by (simp add: ex_adapter_def)
  have expired: "fst (RestoreSession 32 ''p0'' ''a'' ex_adapter) = None"
    using T [of ex_adapter "''p0''" 32 "''a''", THEN conjunct2, THEN conjunct1, rule_format,
        of "ex_session ''s0'' ''p0'' 10"]
    by (simp add: ex_adapter_def ex_session_def)
  have restored: "fst (RestoreSession 32 ''p1'' ''a'' ex_adapter) =
     Some \<lparr>sp_SID = ''s1'', sp_PID = ''p1'', sp_Rooms = [''r1'', ''r2''],
           sp_MissedPackets =
             [ex_packet ''b'' 20 (ex_opts\<lparr>bo_Rooms := {|''r1''|}\<rparr>),
              ex_packet ''e'' 30 (ex_opts\<lparr>bo_Except := {|''r3''|}\<rparr>)]\<rparr>"
    using T [of ex_adapter "''p1''" 32 "''a''", THEN conjunct2, THEN conjunct2, rule_format,
        of "ex_session ''s1'' ''p1'' 28" "[]" "ex_packet ''a'' 10 ex_opts"
          "[ex_packet ''b'' 20 (ex_opts\<lparr>bo_Rooms := {|''r1''|}\<rparr>),
            ex_packet ''c'' 25 (ex_opts\<lparr>bo_Except := {|''r2''|}\<rparr>),
            ex_packet ''d'' 29 (ex_opts\<lparr>bo_Rooms := {|''r9''|}\<rparr>),
            ex_packet ''e'' 30 (ex_opts\<lparr>bo_Except := {|''r3''|}\<rparr>)]"]
    by (simp add: ex_defs)
  from absent expired restored show ?thesis by simp
qed

text \<open>
  Claim C9. When \<open>pid\<close> holds a stored, unexpired session and \<open>offset\<close> is the ID of no
  buffered packet, \<^verbatim>\<open>RestoreSession(pid, offset)\<close> returns no session and leaves the
  adapter, and with it the session stored under \<open>pid\<close>, as it was.
\<close>

theorem RestoreSession_unknown_offset:
  "sessions a pid = Some sw \<Longrightarrow>
   \<not> st_DisconnectedAt sw + maxDisconnectDuration a < now \<Longrightarrow>
   \<forall>p\<in>set (packets a). pp_ID p \<noteq> offset \<Longrightarrow>
   RestoreSession now pid offset a = (None, a)"
  by (simp add: RestoreSession_def hasExpired_def offsetIndex_None [THEN iffD2])

theorem RestoreSession_unknown_offset_witness:
  "RestoreSession 32 ''p1'' ''zz'' ex_adapter = (None, ex_adapter) \<and>
   sessions ex_adapter ''p1'' = Some (ex_session ''s1'' ''p1'' 28)"
  using RestoreSession_unknown_offset [of ex_adapter "''p1''" "ex_session ''s1'' ''p1'' 28" 32 "''zz''"]
  by (simp add: ex_defs)

text \<open>
  Claim C6, as stated: a session is evicted from the store when it expires and when it
  is restored, so that no session remains under \<open>pid\<close> after \<^verbatim>\<open>RestoreSession\<close> returned
  one. The code has no deletion on that path: at time 32 the session \<open>p1\<close> is restored and
  is still stored.
\<close>

theorem RestoreSession_keeps_restored_session:
  "fst (RestoreSession 32 ''p1'' ''a'' ex_adapter) \<noteq> None \<and>
   sessions (snd (RestoreSession 32 ''p1'' ''a'' ex_adapter)) ''p1'' \<noteq> None"
  by (simp add: RestoreSession_def hasExpired_def Let_def ex_defs)

text \<open>
  Claim C6, amended. When \<^verbatim>\<open>RestoreSession\<close> finds the session stored under \<open>pid\<close>
  expired, it returns no session and no session remains stored under \<open>pid\<close>. When it
  returns a session, a session remains stored under \<open>pid\<close>, with the disconnect time, the
  socket ID, the private ID and the rooms it had.
\<close>

theorem RestoreSession_eviction:
  "(\<forall>sw. sessions a pid = Some sw \<and> st_DisconnectedAt sw + maxDisconnectDuration a < now
      \<longrightarrow> fst (RestoreSession now pid offset a) = None \<and>
          sessions (snd (RestoreSession now pid offset a)) pid = None) \<and>
   (\<forall>session. fst (RestoreSession now pid offset a) = Some session
      \<longrightarrow> (\<exists>sw sw'. sessions a pid = Some sw \<and>
            sessions (snd (RestoreSession now pid offset a)) pid = Some sw' \<and>
            st_DisconnectedAt sw' = st_DisconnectedAt sw \<and>
            sp_SID (st_SessionToPersist sw') = sp_SID (st_SessionToPersist sw) \<and>
            sp_PID (st_SessionToPersist sw') = sp_PID (st_SessionToPersist sw) \<and>
            sp_Rooms (st_SessionToPersist sw') = sp_Rooms (st_SessionToPersist sw)))"
  by (auto simp: RestoreSession_def hasExpired_def Let_def split: option.splits if_splits)

theorem RestoreSession_eviction_witness:
  "sessions (snd (RestoreSession 32 ''p0'' ''a'' ex_adapter)) ''p0'' = None \<and>
   (\<exists>sw'. sessions (snd (RestoreSession 32 ''p1'' ''a'' ex_adapter)) ''p1'' = Some sw' \<and>
      st_DisconnectedAt sw' = 28 \<and> sp_SID (st_SessionToPersist sw') = ''s1'' \<and>
      sp_PID (st_SessionToPersist sw') = ''p1'' \<and>
      sp_Rooms (st_SessionToPersist sw') = [''r1'', ''r2''])"
proof -
  note T = RestoreSession_eviction
  have restored: "fst (RestoreSession 32 ''p1'' ''a'' ex_adapter) =
      Some \<lparr>sp_SID = ''s1'', sp_PID = ''p1'', sp_Rooms = [''r1'', ''r2''],
           sp_MissedPackets =
             [ex_packet ''b'' 20 (ex_opts\<lparr>bo_Rooms := {|''r1''|}\<rparr>),
              ex_packet ''e'' 30 (ex_opts\<lparr>bo_Except := {|''r3''|}\<rparr>)]\<rparr>"
    by (simp add: RestoreSession_def hasExpired_def Let_def shouldIncludePacket_def ex_defs)
  have evicted: "sessions (snd (RestoreSession 32 ''p0'' ''a'' ex_adapter)) ''p0'' = None"
    using T [of ex_adapter "''p0''" 32 "''a''", THEN conjunct1, rule_format,
        of "ex_session ''s0'' ''p0'' 10"]
    by (simp add: ex_adapter_def ex_session_def)
  have kept: "\<exists>sw'. sessions (snd (RestoreSession 32 ''p1'' ''a'' ex_adapter)) ''p1'' = Some sw' \<and>
      st_DisconnectedAt sw' = 28 \<and> sp_SID (st_SessionToPersist sw') = ''s1'' \<and>
      sp_PID (st_SessionToPersist sw') = ''p1'' \<and>
      sp_Rooms (st_SessionToPersist sw') = [''r1'', ''r2'']"
    using T [of ex_adapter "''p1''" 32 "''a''", THEN conjunct2, rule_format, OF restored]
    by (auto simp: ex_adapter_def ex_session_def)
  from evicted kept show ?thesis by simp
qed

section \<open>The session-aware adapter: broadcasts\<close>

text \<open>What \<open>Broadcast\<close> does to the buffer and what it hands to the in-memory
  adapter, for every header.\<close>

lemma Broadcast_packets:
  "packets (Broadcast now yeast header v opts a) =
     (if hdr_Type header = PacketTypeEvent \<and> hdr_ID header = None
      then packets a @ [\<lparr>pp_ID = yeast, pp_EmittedAt = now, pp_Opts = opts, pp_Header = None,
                         pp_Data = v @ [AnyString yeast]\<rparr>]
      else packets a)"
  by (simp add: Broadcast_def Let_def)

lemma Broadcast_inner:
  "inner_broadcasts (Broadcast now yeast header v opts a) =
     inner_broadcasts a @
     [(header,
       if hdr_Type header = PacketTypeEvent \<and> hdr_ID header = None then v @ [AnyString yeast] else v,
       opts)]"
  by (simp add: Broadcast_def Let_def)

text \<open>
  Claim C4. \<^verbatim>\<open>Broadcast(header, v, opts)\<close> persists a packet exactly when the header's
  type is EVENT and its ID is nil; the offset ID is then appended to the payload, and the
  persisted packet records the offset ID, the emission time, the options, the header and
  the payload; for every other header the buffer is unchanged.

  The code differs in one field. The broadcast of \<open>["m", "hello"]\<close> with the EVENT header
  \<open>ex_header\<close> at time 40, with the offset ID \<open>y1\<close>, persists a packet with the ID, the
  time, the options and the payload \<open>["m", "hello", "y1"]\<close>, whose \<^verbatim>\<open>Header\<close> is nil.
\<close>

theorem Broadcast_leaves_Header_nil:
  "packets (Broadcast 40 ''y1'' ex_header [AnyString ''m'', AnyString ''hello''] ex_opts
      (ex_adapter\<lparr>packets := []\<rparr>)) =
     [\<lparr>pp_ID = ''y1'', pp_EmittedAt = 40, pp_Opts = ex_opts, pp_Header = None,
       pp_Data = [AnyString ''m'', AnyString ''hello'', AnyString ''y1'']\<rparr>] \<and>
   pp_Header (last (packets (Broadcast 40 ''y1'' ex_header [AnyString ''m'', AnyString ''hello'']
      ex_opts ex_adapter))) \<noteq> Some ex_header"
  by (simp add: Broadcast_def Let_def ex_header_def ex_adapter_def)

section \<open>Acknowledgement IDs of a server socket\<close>

text \<open>With an ack table that was made, the function is taken off the values, stored
  under the counter, and the header carries that ID; with the nil table the call panics.\<close>

lemma sendDataPacket_made_table:
  "ss_acks s = Some acks \<Longrightarrow> \<not> IsEventReservedForServer eventName \<Longrightarrow>
   sendDataPacket typ eventName (v @ [AnyFunc f]) s =
     Inr (s\<lparr>ss_acks := Some (acks(ss_ackID s \<mapsto> f)), ss_ackID := ss_ackID s + 1\<rparr>,
          \<lparr>hdr_Type = typ, hdr_Namespace = ss_nsp s, hdr_ID = Some (ss_ackID s)\<rparr>,
          AnyString eventName # v)"
  by (simp add: sendDataPacket_def Let_def butlast_append)

lemma sendDataPacket_nil_table:
  "ss_acks s = None \<Longrightarrow> \<not> IsEventReservedForServer eventName \<Longrightarrow>
   sendDataPacket typ eventName (v @ [AnyFunc f]) s = Inl AssignmentToNilMap"
  by (simp add: sendDataPacket_def Let_def)

text \<open>
  Claim C5. When the last value given to the emission of a data packet is a function,
  the function is removed from the emitted values and stored in the socket's ack table
  under the current ack counter, the header carries that ID, and the counter increases.

  The code differs on every socket that \<^verbatim>\<open>newServerSocket\<close> creates: the constructor
  leaves the ack table nil, and the emission of \<open>hello\<close> with the values \<open>"world"\<close> and a
  function panics at the assignment to the table.
\<close>

theorem sendDataPacket_new_socket_panics:
  "newServerSocket (Some ''sid1'') \<lparr>nsp_name = ''/''\<rparr> =
     Some \<lparr>ss_id = ''sid1'', ss_nsp = ''/'', ss_acks = None, ss_ackID = 0\<rparr> \<and>
   sendDataPacket PacketTypeEvent ''hello'' [AnyString ''world'', AnyFunc 7]
     \<lparr>ss_id = ''sid1'', ss_nsp = ''/'', ss_acks = None, ss_ackID = 0\<rparr> = Inl AssignmentToNilMap"
  by (simp add: newServerSocket_def sendDataPacket_def IsEventReservedForServer_def Let_def)

section \<open>Namespaces\<close>

lemma GetOrCreate_stores: "namespaces (snd (GetOrCreate name s)) name \<noteq> None"
  by (simp add: GetOrCreate_def Let_def split: option.splits)

text \<open>Whatever \<^verbatim>\<open>acceptAnyNamespace\<close> is, a CONNECT that decodes leaves the server as
  \<open>Of\<close> leaves it.\<close>

lemma connect_runs_Of:
  "connect True add header (c, server) = Inr (c', server') \<Longrightarrow>
   server' = snd (Of (hdr_Namespace header) server)"
  by (auto simp: connect_def Let_def split: prod.splits sum.splits option.splits)

text \<open>
  Claim C3. A CONNECT packet for a namespace that the server has not created makes the
  server create it only if \<^verbatim>\<open>acceptAnyNamespace\<close> is set; when it is false, handling the
  CONNECT does not create the namespace.

  The code differs: on the server \<open>ex_server\<close>, where \<^verbatim>\<open>acceptAnyNamespace\<close> is false and
  \<open>/foo\<close> is unknown, the CONNECT to \<open>/foo\<close> creates the namespace, adds a socket to it and
  answers with a CONNECT reply.
\<close>

theorem connect_creates_unknown_namespace:
  "acceptAnyNamespace ex_server = False \<and> namespaces ex_server ''/foo'' = None \<and>
   connect True ex_add
     \<lparr>hdr_Type = PacketTypeConnect, hdr_Namespace = ''/foo'', hdr_ID = None\<rparr> (ex_conn, ex_server) =
     Inr (\<lparr>conn_sockets = [''sid1'' \<mapsto> \<lparr>ss_id = ''sid1'', ss_nsp = ''/foo'', ss_acks = None, ss_ackID = 0\<rparr>],
           conn_nsps = {''/foo''}, conn_sent = [ConnectReply ''/foo'' ''sid1'']\<rparr>,
          \<lparr>namespaces = [''/'' \<mapsto> \<lparr>nsp_name = ''/''\<rparr>, ''/foo'' \<mapsto> \<lparr>nsp_name = ''/foo''\<rparr>],
           acceptAnyNamespace = False\<rparr>)"
  by (simp add: connect_def Of_def GetOrCreate_def newServerSocket_def ex_add_def ex_server_def
      ex_conn_def Let_def)

text \<open>
  Claim C10. For a non-empty name \<open>s\<close> that does not begin with a slash, \<^verbatim>\<open>Of(s)\<close> is
  \<^verbatim>\<open>Of("/" + s)\<close>: the same namespace and the same store afterwards. The empty name is
  not normalised: \<^verbatim>\<open>Of("")\<close> gets or creates the namespace of the empty name, and when
  it creates it, the store gains an entry under the empty name, not under \<open>/\<close>.
\<close>

theorem Of_adds_leading_slash:
  "(s \<noteq> [] \<and> hd s \<noteq> CHR ''/'' \<longrightarrow> Of s srv = Of (''/'' @ s) srv) \<and>
   Of [] srv = GetOrCreate [] srv \<and>
   (namespaces srv [] = None \<longrightarrow>
      fst (Of [] srv) = \<lparr>nsp_name = []\<rparr> \<and>
      namespaces (snd (Of [] srv)) = (namespaces srv)([] \<mapsto> \<lparr>nsp_name = []\<rparr>))"
  by (cases s) (auto simp: Of_def GetOrCreate_def Let_def split: option.splits)

theorem Of_adds_leading_slash_witness:
  "Of ''foo'' ex_server = Of ''/foo'' ex_server \<and>
   fst (Of ''foo'' ex_server) = \<lparr>nsp_name = ''/foo''\<rparr> \<and>
   fst (Of [] ex_server) = \<lparr>nsp_name = []\<rparr> \<and>
   namespaces (snd (Of [] ex_server)) = [''/'' \<mapsto> \<lparr>nsp_name = ''/''\<rparr>, [] \<mapsto> \<lparr>nsp_name = []\<rparr>]"
  using Of_adds_leading_slash [of "''foo''" ex_server]
  by (simp add: ex_server_def Of_def GetOrCreate_def Let_def)

section \<open>The Engine.IO server: the protocol version\<close>

text \<open>How \<open>Atoi\<close> reads some texts: a sign and leading zeros are accepted, letters and
  the empty text are not.\<close>

lemma Atoi_examples:
  "Atoi ''4'' = Some 4" "Atoi ''+4'' = Some 4" "Atoi ''004'' = Some 4"
  "Atoi ''3'' = Some 3" "Atoi ''4a'' = None" "Atoi [] = None" "Atoi ''-'' = None"
  by (simp_all add: Atoi_def)

text \<open>
  Claim C8. While the Engine.IO server is open, a request whose \<^verbatim>\<open>EIO\<close> query
  parameter does not parse as an integer equal to 4 is answered with the status 400 and
  the JSON error body of code 5 (unsupported protocol version), and nothing else is
  done: no handshake and no look-up of a session.
\<close>

theorem ServeHTTP_unsupported_version:
  "\<not> eio_closed s \<Longrightarrow> Atoi (Get ''EIO'' (req_Query r)) \<noteq> Some 4 \<Longrightarrow>
   ServeHTTP s r =
     [Respond 400 (Some \<lparr>se_Code = 5, se_Message = ''Unsupported protocol version''\<rparr>)] \<and>
   HandleHandshake \<notin> set (ServeHTTP s r) \<and> (\<forall>sid. StoreGet sid \<notin> set (ServeHTTP s r))"
  by (simp add: ServeHTTP_def Let_def writeServerError_def serverErrors_def
      ErrorUnsupportedProtocolVersion_def StatusBadRequest_def ProtocolVersion_def
      split: option.splits)

text \<open>The version 523523 of the repository's test and a version that is no number are
  refused; the version 4 reaches the store.\<close>

theorem ServeHTTP_unsupported_version_witness:
  "ServeHTTP ex_eio (ex_request ''523523'') =
     [Respond 400 (Some \<lparr>se_Code = 5, se_Message = ''Unsupported protocol version''\<rparr>)] \<and>
   ServeHTTP ex_eio (ex_request ''four'') =
     [Respond 400 (Some \<lparr>se_Code = 5, se_Message = ''Unsupported protocol version''\<rparr>)] \<and>
   ServeHTTP ex_eio (ex_request ''4'') = [StoreGet ''abc'', TransportServeHTTP ''abc'']"
proof -
  have a: "Atoi (Get ''EIO'' (req_Query (ex_request ''523523''))) \<noteq> Some 4"
    by (simp add: ex_request_def Get_def Atoi_def)
  have b: "Atoi (Get ''EIO'' (req_Query (ex_request ''four''))) \<noteq> Some 4"
    by (simp add: ex_request_def Get_def Atoi_def)
  have c: "\<not> eio_closed ex_eio"
    by (simp add: ex_eio_def)
  have d: "ServeHTTP ex_eio (ex_request ''4'') = [StoreGet ''abc'', TransportServeHTTP ''abc'']"
    by (simp add: ServeHTTP_def ex_eio_def ex_request_def Get_def Atoi_def ProtocolVersion_def Let_def)
  from ServeHTTP_unsupported_version [OF c a] ServeHTTP_unsupported_version [OF c b] d
  show ?thesis by simp
qed

section \<open>The Engine.IO server: transport upgrade\<close>

lemmas upgrade_ops =
  t_Send_def t_Close_def socket_Send_def socket_upgradeTo_def onError_def once_Do_close_done_def

lemma maybeUpgrade_starts: "maybeUpgrade ''websocket'' True = Inr upgradeStart"
  by (simp add: maybeUpgrade_def)

lemma upgradeRun_snoc: "upgradeRun u (es @ [e]) = upgradeStep (upgradeRun u es) e"
  by (simp add: upgradeRun_def)

text \<open>The three branches of \<open>onPacket\<close>.\<close>

lemma onPacket_Ping:
  "pkt_Type p = PacketTypePing \<Longrightarrow>
   onPacket p u =
     socket_Send \<lparr>pkt_Type = PacketTypeNoop, pkt_IsBinary = False, pkt_Data = []\<rparr>
       (t_Send \<lparr>pkt_Type = PacketTypePong, pkt_IsBinary = False, pkt_Data = ''probe''\<rparr> u)"
  by (simp add: onPacket_def NewPacket_def)

lemma onPacket_Upgrade:
  "pkt_Type p = PacketTypeUpgrade \<Longrightarrow> onPacket p u = socket_upgradeTo (once_Do_close_done u)"
  by (simp add: onPacket_def)

lemma onPacket_other:
  "pkt_Type p \<noteq> PacketTypePing \<Longrightarrow> pkt_Type p \<noteq> PacketTypeUpgrade \<Longrightarrow>
   onPacket p u = onError (t_Close u)"
  by (cases "pkt_Type p") (simp_all add: onPacket_def)

text \<open>The \<^verbatim>\<open>sync.Once\<close> has run exactly when \<^verbatim>\<open>done\<close> is closed: nothing else
  closes the channel.\<close>

lemma once_done_step:
  assumes h: "up_once u = up_done u"
  shows "up_once (upgradeStep u e) = up_done (upgradeStep u e)"
proof (cases e)
  case (Received p)
  show ?thesis
  proof (cases "pkt_Type p = PacketTypePing")
    case True
    with h Received show ?thesis
      by (simp add: upgradeStep_def onPacket_Ping upgrade_ops split: transportRef.splits)
  next
    case notPing: False
    show ?thesis
    proof (cases "pkt_Type p = PacketTypeUpgrade")
      case True
      with h Received show ?thesis
        by (simp add: upgradeStep_def onPacket_Upgrade upgrade_ops)
    next
      case False
      with notPing h Received show ?thesis
        by (simp add: upgradeStep_def onPacket_other upgrade_ops)
    qed
  qed
next
  case DoneSeen
  with h show ?thesis by (simp add: upgradeStep_def)
next
  case TimeoutElapsed
  with h show ?thesis by (simp add: upgradeStep_def upgrade_ops)
qed

lemma once_done_run:
  "up_once u = up_done u \<Longrightarrow> up_once (upgradeRun u es) = up_done (upgradeRun u es)"
  by (induction es rule: rev_induct) (simp_all add: upgradeRun_def once_done_step)

text \<open>An attempt stays open as long as no UPGRADE packet arrives, and the timeout
  closes the new transport of an open attempt.\<close>

lemma pending_step:
  assumes h: "pending u" and n: "notUpgrade e"
  shows "pending (upgradeStep u e)"
proof (cases e)
  case (Received p)
  with n have nu: "pkt_Type p \<noteq> PacketTypeUpgrade"
    by (simp add: notUpgrade_def)
  show ?thesis
  proof (cases "pkt_Type p = PacketTypePing")
    case True
    with h Received show ?thesis
      by (simp add: pending_def upgradeStep_def onPacket_Ping upgrade_ops)
  next
    case False
    with nu h Received show ?thesis
      by (simp add: pending_def upgradeStep_def onPacket_other upgrade_ops)
  qed
next
  case DoneSeen
  with h show ?thesis by (simp add: pending_def upgradeStep_def)
next
  case TimeoutElapsed
  with h show ?thesis by (auto simp: pending_def upgradeStep_def upgrade_ops)
qed

lemma pending_run: "pending u \<Longrightarrow> \<forall>e\<in>set es. notUpgrade e \<Longrightarrow> pending (upgradeRun u es)"
  by (induction es rule: rev_induct) (simp_all add: upgradeRun_def pending_step)

lemma pending_timeout:
  "pending u \<Longrightarrow>
   up_new_closed (upgradeStep u TimeoutElapsed) \<and> up_active (upgradeStep u TimeoutElapsed) = OldTransport"
  by (auto simp: pending_def upgradeStep_def upgrade_ops)

text \<open>
  Claim C7. In every state that an upgrade attempt reaches from its start: when a PING
  arrives on the new transport, a PONG with the payload \<open>probe\<close> is sent on the new
  transport and a NOOP on the transport the socket is on; when an UPGRADE arrives, the
  channel \<^verbatim>\<open>done\<close> is closed and the socket is on the new transport. When the timeout
  elapses after events among which no UPGRADE arrived, the new transport is closed and the
  socket is still on its old transport.
\<close>

theorem maybeUpgrade_probe_upgrade_timeout:
  "(pkt_Type p = PacketTypePing \<longrightarrow>
      up_new_sent (onPacket p (upgradeRun upgradeStart es)) =
        up_new_sent (upgradeRun upgradeStart es) @
        \<lparr>pkt_Type = PacketTypePong, pkt_IsBinary = False, pkt_Data = ''probe''\<rparr> #
        (if up_active (upgradeRun upgradeStart es) = NewTransport
         then [\<lparr>pkt_Type = PacketTypeNoop, pkt_IsBinary = False, pkt_Data = []\<rparr>] else []) \<and>
      up_old_sent (onPacket p (upgradeRun upgradeStart es)) =
        up_old_sent (upgradeRun upgradeStart es) @
        (if up_active (upgradeRun upgradeStart es) = OldTransport
         then [\<lparr>pkt_Type = PacketTypeNoop, pkt_IsBinary = False, pkt_Data = []\<rparr>] else [])) \<and>
   (pkt_Type p = PacketTypeUpgrade \<longrightarrow>
      up_done (onPacket p (upgradeRun upgradeStart es)) \<and>
      up_active (onPacket p (upgradeRun upgradeStart es)) = NewTransport) \<and>
   ((\<forall>e\<in>set es. notUpgrade e) \<longrightarrow>
      up_new_closed (upgradeRun upgradeStart (es @ [TimeoutElapsed])) \<and>
      up_active (upgradeRun upgradeStart (es @ [TimeoutElapsed])) = OldTransport)"
proof (intro conjI impI)
  assume "pkt_Type p = PacketTypePing"
  then show "up_new_sent (onPacket p (upgradeRun upgradeStart es)) =
        up_new_sent (upgradeRun upgradeStart es) @
        \<lparr>pkt_Type = PacketTypePong, pkt_IsBinary = False, pkt_Data = ''probe''\<rparr> #
        (if up_active (upgradeRun upgradeStart es) = NewTransport
         then [\<lparr>pkt_Type = PacketTypeNoop, pkt_IsBinary = False, pkt_Data = []\<rparr>] else [])"
    by (simp add: onPacket_Ping upgrade_ops split: transportRef.splits)
next
  assume "pkt_Type p = PacketTypePing"
  then show "up_old_sent (onPacket p (upgradeRun upgradeStart es)) =
        up_old_sent (upgradeRun upgradeStart es) @
        (if up_active (upgradeRun upgradeStart es) = OldTransport
         then [\<lparr>pkt_Type = PacketTypeNoop, pkt_IsBinary = False, pkt_Data = []\<rparr>] else [])"
    by (simp add: onPacket_Ping upgrade_ops split: transportRef.splits)
next
  assume u: "pkt_Type p = PacketTypeUpgrade"
  have "up_once (upgradeRun upgradeStart es) = up_done (upgradeRun upgradeStart es)"
    by (rule once_done_run) (simp add: upgradeStart_def)
  with u show "up_done (onPacket p (upgradeRun upgradeStart es))"
    by (simp add: onPacket_Upgrade upgrade_ops)
next
  assume "pkt_Type p = PacketTypeUpgrade"
  then show "up_active (onPacket p (upgradeRun upgradeStart es)) = NewTransport"
    by (simp add: onPacket_Upgrade upgrade_ops)
next
  assume n: "\<forall>e\<in>set es. notUpgrade e"
  have "pending upgradeStart"
    by (simp add: pending_def upgradeStart_def)
  then have p: "pending (upgradeRun upgradeStart es)"
    using n by (rule pending_run)
  from pending_timeout [OF p]
  show "up_new_closed (upgradeRun upgradeStart (es @ [TimeoutElapsed]))"
    by (simp add: upgradeRun_snoc)
  from pending_timeout [OF p]
  show "up_active (upgradeRun upgradeStart (es @ [TimeoutElapsed])) = OldTransport"
    by (simp add: upgradeRun_snoc)
qed

text \<open>A probe, then the upgrade; and a probe, then the timeout.\<close>

theorem maybeUpgrade_probe_upgrade_timeout_witness:
  "up_new_sent (onPacket ex_ping upgradeStart) =
     [\<lparr>pkt_Type = PacketTypePong, pkt_IsBinary = False, pkt_Data = ''probe''\<rparr>] \<and>
   up_old_sent (onPacket ex_ping upgradeStart) =
     [\<lparr>pkt_Type = PacketTypeNoop, pkt_IsBinary = False, pkt_Data = []\<rparr>] \<and>
   up_done (onPacket ex_upgrade (upgradeRun upgradeStart [Received ex_ping])) \<and>
   up_active (onPacket ex_upgrade (upgradeRun upgradeStart [Received ex_ping])) = NewTransport \<and>
   up_new_closed (upgradeRun upgradeStart [Received ex_ping, TimeoutElapsed]) \<and>
   up_active (upgradeRun upgradeStart [Received ex_ping, TimeoutElapsed]) = OldTransport"
proof -
  note T = maybeUpgrade_probe_upgrade_timeout
  have ping: "pkt_Type ex_ping = PacketTypePing"
    by (simp add: ex_ping_def)
  have upgrade: "pkt_Type ex_upgrade = PacketTypeUpgrade"
    by (simp add: ex_upgrade_def)
  have quiet: "\<forall>e\<in>set [Received ex_ping]. notUpgrade e"
    by (simp add: notUpgrade_def ex_ping_def)
  have start: "upgradeRun upgradeStart [] = upgradeStart"
    by (simp add: upgradeRun_def)
  from T [of ex_ping "[]", THEN conjunct1, rule_format, OF ping]
    T [of ex_upgrade "[Received ex_ping]", THEN conjunct2, THEN conjunct1, rule_format, OF upgrade]
    T [of ex_ping "[Received ex_ping]", THEN conjunct2, THEN conjunct2, THEN mp, OF quiet]
  show ?thesis
    by (simp add: start) (simp add: upgradeStart_def)
qed

end
